theory Spec2Isabelle
  imports Complex_Main "HOL-Library.AList"
begin

section \<open>Python values\<close>

text \<open>
  A Python \<open>str\<close> is a sequence of Unicode code points, modelled as a list of naturals.
  The tables of the interpreter that the program consults (\<open>str.isspace\<close>, \<open>str.lower\<close>,
  \<open>str.upper\<close>, \<open>str.isdigit\<close>, the NFKD decomposition and the canonical combining class)
  are transcribed for the Latin-1 repertoire U+0000..U+00FF, which covers every string
  literal of the program; \<open>str.isspace\<close> is transcribed in full.

  A Python \<open>float\<close> is modelled as an exact real number, or one of the three non-finite
  values: rounding to binary64 and overflow are outside the model.
\<close>

type_synonym ustr = "nat list"

definition u :: "string \<Rightarrow> ustr" where
  "u s = map of_char s"

datatype pyfloat = Fin real | PosInf | NegInf | NaN

text \<open>The values \<open>json.loads\<close> produces. A \<open>JDict\<close> holds the items of the dict in order.\<close>

datatype json =
    JNull
  | JBool bool
  | JInt int
  | JFloat pyfloat
  | JStr ustr
  | JList "json list"
  | JDict "(ustr \<times> json) list"

text \<open>Exceptions, with the place that raises them.\<close>

datatype py_exc =
    ValueError string
  | TypeError string
  | OverflowError string
  | KeyError string
  | StatisticsError string

text \<open>\<open>except Exception\<close> catches each of them.\<close>

fun is_Exception :: "py_exc \<Rightarrow> bool" where
  "is_Exception (ValueError m) = True"
| "is_Exception (TypeError m) = True"
| "is_Exception (OverflowError m) = True"
| "is_Exception (KeyError m) = True"
| "is_Exception (StatisticsError m) = True"

subsection \<open>Strings\<close>

text \<open>\<open>str.isspace\<close> on one code point.\<close>

definition py_isspace :: "nat \<Rightarrow> bool" where
  "py_isspace c \<longleftrightarrow>
     (9 \<le> c \<and> c \<le> 13) \<or> (28 \<le> c \<and> c \<le> 32) \<or> c = 133 \<or> c = 160 \<or> c = 5760 \<or>
     (8192 \<le> c \<and> c \<le> 8202) \<or> c = 8232 \<or> c = 8233 \<or> c = 8239 \<or> c = 8287 \<or> c = 12288"

text \<open>\<open>s.strip()\<close>\<close>

definition py_strip :: "ustr \<Rightarrow> ustr" where
  "py_strip s = rev (dropWhile py_isspace (rev (dropWhile py_isspace s)))"

text \<open>\<open>s.replace(old, new)\<close> for a one-character \<open>old\<close>.\<close>

definition py_replace :: "nat \<Rightarrow> ustr \<Rightarrow> ustr \<Rightarrow> ustr" where
  "py_replace old new s = concat (map (\<lambda>c. if c = old then new else [c]) s)"

subsection \<open>\<open>float(str)\<close> and \<open>int(str)\<close>\<close>

definition is_ascii_digit :: "nat \<Rightarrow> bool" where
  "is_ascii_digit c \<longleftrightarrow> 48 \<le> c \<and> c \<le> 57"

text \<open>The interpreter's \<open>Py_ISSPACE\<close>, used by the number parsers on the transformed string.\<close>

definition c_isspace :: "nat \<Rightarrow> bool" where
  "c_isspace c \<longleftrightarrow> (9 \<le> c \<and> c \<le> 13) \<or> c = 32"

definition c_strip :: "ustr \<Rightarrow> ustr" where
  "c_strip s = rev (dropWhile c_isspace (rev (dropWhile c_isspace s)))"

text \<open>
  Both parsers first map the string to ASCII: ASCII stays, other white space becomes a
  blank, anything else (within the repertoire) becomes \<open>?\<close>, which no number contains.
\<close>

definition to_ascii_cp :: "nat \<Rightarrow> nat" where
  "to_ascii_cp c = (if c < 127 then c else if py_isspace c then 32 else 63)"

text \<open>Underscores are allowed between two digits only, and are dropped.\<close>

fun drop_underscores :: "nat \<Rightarrow> ustr \<Rightarrow> ustr option" where
  "drop_underscores prev [] = (if prev = 95 then None else Some [])"
| "drop_underscores prev (c # cs) =
     (if c = 95 then (if is_ascii_digit prev then drop_underscores c cs else None)
      else if prev = 95 \<and> \<not> is_ascii_digit c then None
      else map_option ((#) c) (drop_underscores c cs))"

definition without_underscores :: "ustr \<Rightarrow> ustr option" where
  "without_underscores s = (if 95 \<in> set s then drop_underscores 0 s else Some s)"

definition dec_val :: "ustr \<Rightarrow> nat" where
  "dec_val ds = foldl (\<lambda>a c. 10 * a + (c - 48)) 0 ds"

text \<open>An optional sign: whether it is a minus, and the rest.\<close>

definition take_sign :: "ustr \<Rightarrow> bool \<times> ustr" where
  "take_sign s =
     (case s of
        [] \<Rightarrow> (False, [])
      | c # cs \<Rightarrow> if c = 45 then (True, cs) else if c = 43 then (False, cs) else (False, s))"

definition ascii_lower :: "nat \<Rightarrow> nat" where
  "ascii_lower c = (if 65 \<le> c \<and> c \<le> 90 then c + 32 else c)"

definition parse_inf_nan :: "bool \<Rightarrow> ustr \<Rightarrow> pyfloat option" where
  "parse_inf_nan neg s =
     (let l = map ascii_lower s in
      if l = u ''inf'' \<or> l = u ''infinity'' then Some (if neg then NegInf else PosInf)
      else if l = u ''nan'' then Some NaN
      else None)"

definition parse_exponent :: "ustr \<Rightarrow> int option" where
  "parse_exponent s =
     (case s of
        [] \<Rightarrow> Some 0
      | c # cs \<Rightarrow>
          if c = 101 \<or> c = 69 then
            (case take_sign cs of (neg, ds) \<Rightarrow>
               if ds \<noteq> [] \<and> list_all is_ascii_digit ds
               then Some (if neg then - int (dec_val ds) else int (dec_val ds))
               else None)
          else None)"

definition scale10 :: "real \<Rightarrow> int \<Rightarrow> real" where
  "scale10 m k = (if 0 \<le> k then m * 10 ^ nat k else m / 10 ^ nat (- k))"

definition parse_decimal :: "bool \<Rightarrow> ustr \<Rightarrow> pyfloat option" where
  "parse_decimal neg s =
     (let ip = takeWhile is_ascii_digit s;
          r1 = dropWhile is_ascii_digit s;
          fp = (case r1 of [] \<Rightarrow> [] | c # cs \<Rightarrow> if c = 46 then takeWhile is_ascii_digit cs else []);
          r2 = (case r1 of [] \<Rightarrow> [] | c # cs \<Rightarrow> if c = 46 then dropWhile is_ascii_digit cs else r1)
      in if ip = [] \<and> fp = [] then None
         else (case parse_exponent r2 of
                 None \<Rightarrow> None
               | Some e \<Rightarrow>
                   Some (Fin (scale10 ((if neg then - 1 else 1) * real (dec_val (ip @ fp)))
                                      (e - int (length fp))))))"

text \<open>\<open>float(s)\<close> for a string \<open>s\<close>.\<close>

definition float_of_str :: "ustr \<Rightarrow> py_exc + pyfloat" where
  "float_of_str s =
     (case without_underscores (map to_ascii_cp s) of
        None \<Rightarrow> Inl (ValueError ''could not convert string to float'')
      | Some d \<Rightarrow>
          (case take_sign (c_strip d) of (neg, r) \<Rightarrow>
             (case parse_inf_nan neg r of
                Some f \<Rightarrow> Inr f
              | None \<Rightarrow>
                  (case parse_decimal neg r of
                     Some f \<Rightarrow> Inr f
                   | None \<Rightarrow> Inl (ValueError ''could not convert string to float'')))))"

text \<open>\<open>float(x)\<close> for a value of any type.\<close>

fun py_float :: "json \<Rightarrow> py_exc + pyfloat" where
  "py_float JNull = Inl (TypeError ''float() argument must be a string or a real number'')"
| "py_float (JBool b) = Inr (Fin (if b then 1 else 0))"
| "py_float (JInt i) = Inr (Fin (of_int i))"
| "py_float (JFloat f) = Inr f"
| "py_float (JStr s) = float_of_str s"
| "py_float (JList xs) = Inl (TypeError ''float() argument must be a string or a real number'')"
| "py_float (JDict kvs) = Inl (TypeError ''float() argument must be a string or a real number'')"

section \<open>The numeric coercer\<close>

text \<open>
  The body of the \<open>try\<close> block of \<open>as_float\<close>. \<open>bool\<close> is a subclass of \<open>int\<close>, so a
  boolean takes the numeric branch.
\<close>

fun as_float_body :: "json \<Rightarrow> py_exc + pyfloat option" where
  "as_float_body JNull = Inr None"
| "as_float_body (JBool b) = map_sum id Some (py_float (JBool b))"
| "as_float_body (JInt i) = map_sum id Some (py_float (JInt i))"
| "as_float_body (JFloat f) = map_sum id Some (py_float (JFloat f))"
| "as_float_body (JStr x) =
     (let s = py_strip x in
      if s = [] then Inr None
      else map_sum id Some (float_of_str (py_replace 44 [46] (py_replace 37 [] s))))"
| "as_float_body x = map_sum id Some (py_float x)"

definition as_float :: "json \<Rightarrow> py_exc + pyfloat option" where
  "as_float x =
     (case as_float_body x of
        Inl e \<Rightarrow> if is_Exception e then Inr None else Inl e
      | Inr v \<Rightarrow> Inr v)"

section \<open>The key normalizer\<close>

text \<open>\<open>str.lower\<close>: on Latin-1 it maps code point to code point.\<close>

definition py_lower_cp :: "nat \<Rightarrow> nat" where
  "py_lower_cp c =
     (if (65 \<le> c \<and> c \<le> 90) \<or> (192 \<le> c \<and> c \<le> 214) \<or> (216 \<le> c \<and> c \<le> 222)
      then c + 32 else c)"

definition py_lower :: "ustr \<Rightarrow> ustr" where
  "py_lower s = map py_lower_cp s"

text \<open>
  \<open>str.upper\<close>: three Latin-1 characters leave the range (sharp s becomes \<open>SS\<close>, the
  micro sign a Greek capital mu, y with diaeresis U+0178).
\<close>

definition py_upper_cp :: "nat \<Rightarrow> ustr" where
  "py_upper_cp c =
     (if (97 \<le> c \<and> c \<le> 122) \<or> (224 \<le> c \<and> c \<le> 246) \<or> (248 \<le> c \<and> c \<le> 254)
      then [c - 32]
      else if c = 223 then [83, 83]
      else if c = 181 then [924]
      else if c = 255 then [376]
      else [c])"

definition py_upper :: "ustr \<Rightarrow> ustr" where
  "py_upper s = concat (map py_upper_cp s)"

text \<open>
  The compatibility decompositions of the Latin-1 characters that have one
  (UnicodeData, field 5, fully decomposed).
\<close>

definition nfkd_table :: "(nat \<times> ustr) list" where
  "nfkd_table =
    [(160, [32]), (168, [32, 776]), (170, [97]), (175, [32, 772]), (178, [50]), (179, [51]),
     (180, [32, 769]), (181, [956]), (184, [32, 807]), (185, [49]), (186, [111]),
     (188, [49, 8260, 52]), (189, [49, 8260, 50]), (190, [51, 8260, 52]),
     (192, [65, 768]), (193, [65, 769]), (194, [65, 770]), (195, [65, 771]), (196, [65, 776]),
     (197, [65, 778]), (199, [67, 807]),
     (200, [69, 768]), (201, [69, 769]), (202, [69, 770]), (203, [69, 776]),
     (204, [73, 768]), (205, [73, 769]), (206, [73, 770]), (207, [73, 776]),
     (209, [78, 771]),
     (210, [79, 768]), (211, [79, 769]), (212, [79, 770]), (213, [79, 771]), (214, [79, 776]),
     (217, [85, 768]), (218, [85, 769]), (219, [85, 770]), (220, [85, 776]), (221, [89, 769]),
     (224, [97, 768]), (225, [97, 769]), (226, [97, 770]), (227, [97, 771]), (228, [97, 776]),
     (229, [97, 778]), (231, [99, 807]),
     (232, [101, 768]), (233, [101, 769]), (234, [101, 770]), (235, [101, 776]),
     (236, [105, 768]), (237, [105, 769]), (238, [105, 770]), (239, [105, 776]),
     (241, [110, 771]),
     (242, [111, 768]), (243, [111, 769]), (244, [111, 770]), (245, [111, 771]), (246, [111, 776]),
     (249, [117, 768]), (250, [117, 769]), (251, [117, 770]), (252, [117, 776]), (253, [121, 769]),
     (255, [121, 776])]"

definition nfkd_cp :: "nat \<Rightarrow> ustr" where
  "nfkd_cp c =
     (if c < 160 then [c]
      else (case map_of nfkd_table c of None \<Rightarrow> [c] | Some d \<Rightarrow> d))"

text \<open>
  \<open>unicodedata.normalize("NFKD", s)\<close>. Every Latin-1 character is a starter and brings at
  most one mark, so the canonical reordering of marks has nothing to reorder.
\<close>

definition nfkd :: "ustr \<Rightarrow> ustr" where
  "nfkd s = concat (map nfkd_cp s)"

text \<open>
  \<open>unicodedata.combining\<close>: the canonical combining class. It is 0 on Latin-1 and on the
  two other starters the decompositions produce; the marks they produce are listed.
\<close>

definition combining :: "nat \<Rightarrow> nat" where
  "combining c =
     (if (768 \<le> c \<and> c \<le> 772) \<or> c = 776 \<or> c = 778 then 230
      else if c = 807 then 202
      else 0)"

text \<open>\<open>s.split()\<close>: the maximal runs of characters that are not white space.\<close>

fun split_words :: "ustr \<Rightarrow> ustr \<Rightarrow> ustr list" where
  "split_words w [] = (if w = [] then [] else [w])"
| "split_words w (c # cs) =
     (if py_isspace c then (if w = [] then split_words [] cs else w # split_words [] cs)
      else split_words (w @ [c]) cs)"

definition py_split :: "ustr \<Rightarrow> ustr list" where
  "py_split s = split_words [] s"

text \<open>\<open>sep.join(xs)\<close>\<close>

fun py_join :: "ustr \<Rightarrow> ustr list \<Rightarrow> ustr" where
  "py_join sep [] = []"
| "py_join sep [x] = x"
| "py_join sep (x # y # ys) = x @ sep @ py_join sep (y # ys)"

text \<open>\<open>_norm\<close>\<close>

definition py_norm :: "ustr \<Rightarrow> ustr" where
  "py_norm s =
     py_join [32] (py_split (py_replace 45 [32]
       (filter (\<lambda>c. combining c = 0) (nfkd (py_lower (py_strip s))))))"

section \<open>The static tables\<close>

text \<open>A \<open>dict\<close> is the list of its items in insertion order; \<open>d[k] = v\<close> is \<open>AList.update\<close>.\<close>

definition UF_TO_STATE :: "(ustr \<times> ustr) list" where
  "UF_TO_STATE =
    [(u ''AC'', u ''Acre''),
     (u ''AL'', u ''Alagoas''),
     (u ''AP'', u ''Amap'' @ [225]),
     (u ''AM'', u ''Amazonas''),
     (u ''BA'', u ''Bahia''),
     (u ''CE'', u ''Cear'' @ [225]),
     (u ''DF'', u ''Distrito Federal''),
     (u ''ES'', u ''Esp'' @ 237 # u ''rito Santo''),
     (u ''GO'', u ''Goi'' @ 225 # u ''s''),
     (u ''MA'', u ''Maranh'' @ 227 # u ''o''),
     (u ''MT'', u ''Mato Grosso''),
     (u ''MS'', u ''Mato Grosso do Sul''),
     (u ''MG'', u ''Minas Gerais''),
     (u ''PA'', u ''Par'' @ [225]),
     (u ''PB'', u ''Para'' @ 237 # u ''ba''),
     (u ''PR'', u ''Paran'' @ [225]),
     (u ''PE'', u ''Pernambuco''),
     (u ''PI'', u ''Piau'' @ [237]),
     (u ''RJ'', u ''Rio de Janeiro''),
     (u ''RN'', u ''Rio Grande do Norte''),
     (u ''RS'', u ''Rio Grande do Sul''),
     (u ''RO'', u ''Rond'' @ 244 # u ''nia''),
     (u ''RR'', u ''Roraima''),
     (u ''SC'', u ''Santa Catarina''),
     (u ''SP'', u ''S'' @ 227 # u ''o Paulo''),
     (u ''SE'', u ''Sergipe''),
     (u ''TO'', u ''Tocantins'')]"

text \<open>\<open>{_norm(v): k for k, v in UF_TO_STATE.items()}\<close>\<close>

definition STATE_TO_UF :: "(ustr \<times> ustr) list" where
  "STATE_TO_UF = fold (\<lambda>(k, v) d. AList.update (py_norm v) k d) UF_TO_STATE []"

section \<open>Reading values\<close>

text \<open>\<open>r.get(k)\<close> on the items of a dict: \<open>None\<close> when the key is absent.\<close>

definition py_get :: "(ustr \<times> json) list \<Rightarrow> ustr \<Rightarrow> json" where
  "py_get r k = (case map_of r k of None \<Rightarrow> JNull | Some v \<Rightarrow> v)"

text \<open>Truth value of a Python object, for \<open>a or b\<close>.\<close>

fun py_truthy :: "json \<Rightarrow> bool" where
  "py_truthy JNull = False"
| "py_truthy (JBool b) = b"
| "py_truthy (JInt i) = (i \<noteq> 0)"
| "py_truthy (JFloat f) = (f \<noteq> Fin 0)"
| "py_truthy (JStr s) = (s \<noteq> [])"
| "py_truthy (JList xs) = (xs \<noteq> [])"
| "py_truthy (JDict kvs) = (kvs \<noteq> [])"

definition py_or :: "json \<Rightarrow> json \<Rightarrow> json" where
  "py_or a b = (if py_truthy a then a else b)"

text \<open>
  \<open>for r in rows\<close>: a list gives its elements, a dict its keys, a string its characters;
  iterating anything else raises.
\<close>

fun py_iter :: "json \<Rightarrow> py_exc + json list" where
  "py_iter (JList xs) = Inr xs"
| "py_iter (JDict kvs) = Inr (map (\<lambda>kv. JStr (fst kv)) kvs)"
| "py_iter (JStr s) = Inr (map (\<lambda>c. JStr [c]) s)"
| "py_iter x = Inl (TypeError ''object is not iterable'')"

text \<open>A loop whose body may raise: the exception ends the loop.\<close>

fun for_each :: "('a \<Rightarrow> 's \<Rightarrow> py_exc + 's) \<Rightarrow> 'a list \<Rightarrow> 's \<Rightarrow> py_exc + 's" where
  "for_each body [] s = Inr s"
| "for_each body (x # xs) s =
     (case body x s of Inl e \<Rightarrow> Inl e | Inr s' \<Rightarrow> for_each body xs s')"

text \<open>\<open>int(s)\<close> for a string, base 10.\<close>

definition int_of_str :: "ustr \<Rightarrow> py_exc + int" where
  "int_of_str s =
     (case take_sign (c_strip (map to_ascii_cp s)) of (neg, r) \<Rightarrow>
        (case drop_underscores 0 r of
           None \<Rightarrow> Inl (ValueError ''invalid literal for int() with base 10'')
         | Some ds \<Rightarrow>
             if ds \<noteq> [] \<and> list_all is_ascii_digit ds
             then Inr (if neg then - int (dec_val ds) else int (dec_val ds))
             else Inl (ValueError ''invalid literal for int() with base 10'')))"

text \<open>\<open>int(x)\<close> for a value of any type; a float is truncated towards zero.\<close>

fun py_int :: "json \<Rightarrow> py_exc + int" where
  "py_int JNull = Inl (TypeError ''int() argument must be a string or a real number'')"
| "py_int (JBool b) = Inr (if b then 1 else 0)"
| "py_int (JInt i) = Inr i"
| "py_int (JFloat (Fin r)) = Inr (if 0 \<le> r then \<lfloor>r\<rfloor> else \<lceil>r\<rceil>)"
| "py_int (JFloat PosInf) = Inl (OverflowError ''cannot convert float infinity to integer'')"
| "py_int (JFloat NegInf) = Inl (OverflowError ''cannot convert float infinity to integer'')"
| "py_int (JFloat NaN) = Inl (ValueError ''cannot convert float NaN to integer'')"
| "py_int (JStr s) = int_of_str s"
| "py_int (JList xs) = Inl (TypeError ''int() argument must be a string or a real number'')"
| "py_int (JDict kvs) = Inl (TypeError ''int() argument must be a string or a real number'')"

text \<open>\<open>str.isdigit\<close>: on Latin-1 the ASCII digits and the superscripts 1, 2, 3.\<close>

definition py_isdigit_cp :: "nat \<Rightarrow> bool" where
  "py_isdigit_cp c \<longleftrightarrow> is_ascii_digit c \<or> c = 178 \<or> c = 179 \<or> c = 185"

definition py_isdigit :: "ustr \<Rightarrow> bool" where
  "py_isdigit s \<longleftrightarrow> s \<noteq> [] \<and> list_all py_isdigit_cp s"

text \<open>The four source files: \<open>None\<close> when the file does not exist, else its parsed content.\<close>

record files =
  BF_FILE :: "json option"
  SAN_FILE :: "json option"
  EDU_FILE :: "json option"
  UNEMP_FILE :: "json option"

section \<open>The baseline loader\<close>

record bf_row =
  State :: ustr
  UF :: ustr
  bf_total :: pyfloat

definition total_aliases :: "ustr list" where
  "total_aliases =
     [u ''total_pago_2021'', u ''total_paid_2021'', u ''total_paid'', u ''total_pago'', u ''total'']"

text \<open>The inner loop over the aliases, with its \<open>break\<close> at the first key present.\<close>

fun probe_total :: "ustr list \<Rightarrow> (ustr \<times> json) list \<Rightarrow> py_exc + pyfloat option" where
  "probe_total [] r = Inr None"
| "probe_total (k # ks) r =
     (if map_of r k \<noteq> None then as_float (py_get r k) else probe_total ks r)"

text \<open>The body of the loop over the rows; every \<open>continue\<close> returns \<open>out\<close> unchanged.\<close>

definition bf_step :: "json \<Rightarrow> (ustr \<times> bf_row) list \<Rightarrow> py_exc + (ustr \<times> bf_row) list" where
  "bf_step r out =
     (case r of
        JDict d \<Rightarrow>
          (case py_or (py_get d (u ''UF'')) (py_get d (u ''uf'')) of
             JStr uf0 \<Rightarrow>
               if length (py_strip uf0) \<noteq> 2 then Inr out
               else
                 (case probe_total total_aliases d of
                    Inl e \<Rightarrow> Inl e
                  | Inr None \<Rightarrow> Inr out
                  | Inr (Some tot) \<Rightarrow>
                      (case map_of UF_TO_STATE (py_upper (py_strip uf0)) of
                         None \<Rightarrow> Inr out
                       | Some state \<Rightarrow>
                           if state = [] then Inr out
                           else Inr (AList.update (py_norm state)
                                  \<lparr>State = state, UF = py_upper (py_strip uf0), bf_total = tot\<rparr>
                                  out)))
           | _ \<Rightarrow> Inr out)
      | _ \<Rightarrow> Inr out)"

definition load_bf_totals_by_state_norm :: "files \<Rightarrow> py_exc + (ustr \<times> bf_row) list" where
  "load_bf_totals_by_state_norm fs =
     (case BF_FILE fs of
        None \<Rightarrow> Inr []
      | Some rows \<Rightarrow>
          (case py_iter rows of
             Inl e \<Rightarrow> Inl e
           | Inr rs \<Rightarrow> for_each bf_step rs []))"

section \<open>The metric loaders\<close>

definition san_step :: "json \<Rightarrow> (ustr \<times> pyfloat) list \<Rightarrow> py_exc + (ustr \<times> pyfloat) list" where
  "san_step r out =
     (case r of
        JDict d \<Rightarrow>
          (case py_get d (u ''State'') of
             JStr st \<Rightarrow>
               (case as_float (py_get d (u ''Sanitation_Access'')) of
                  Inl e \<Rightarrow> Inl e
                | Inr None \<Rightarrow> Inr out
                | Inr (Some v) \<Rightarrow> Inr (AList.update (py_norm st) v out))
           | _ \<Rightarrow> Inr out)
      | _ \<Rightarrow> Inr out)"

definition load_sanitation_2022_by_state_norm :: "files \<Rightarrow> py_exc + (ustr \<times> pyfloat) list" where
  "load_sanitation_2022_by_state_norm fs =
     (case SAN_FILE fs of
        None \<Rightarrow> Inr []
      | Some (JList rows) \<Rightarrow> for_each san_step rows []
      | Some _ \<Rightarrow> Inr [])"

text \<open>
  The education loop. \<open>int(year)\<close> stands in a \<open>try\<close> whose handler is \<open>continue\<close>;
  a record replaces the stored one only when its year is strictly greater.
\<close>

definition edu_step ::
  "json \<Rightarrow> (ustr \<times> int \<times> pyfloat) list \<Rightarrow> py_exc + (ustr \<times> int \<times> pyfloat) list" where
  "edu_step r best =
     (case r of
        JDict d \<Rightarrow>
          (case py_get d (u ''State'') of
             JStr st \<Rightarrow>
               (case py_int (py_get d (u ''Year'')) of
                  Inl e \<Rightarrow> if is_Exception e then Inr best else Inl e
                | Inr y \<Rightarrow>
                    (case as_float (py_get d (u ''Years_Schooling'')) of
                       Inl e \<Rightarrow> Inl e
                     | Inr None \<Rightarrow> Inr best
                     | Inr (Some ys) \<Rightarrow>
                         (case map_of best (py_norm st) of
                            None \<Rightarrow> Inr (AList.update (py_norm st) (y, ys) best)
                          | Some prev \<Rightarrow>
                              if y > fst prev then Inr (AList.update (py_norm st) (y, ys) best)
                              else Inr best)))
           | _ \<Rightarrow> Inr best)
      | _ \<Rightarrow> Inr best)"

definition load_education_latest_by_state_norm :: "files \<Rightarrow> py_exc + (ustr \<times> pyfloat) list" where
  "load_education_latest_by_state_norm fs =
     (case EDU_FILE fs of
        None \<Rightarrow> Inr []
      | Some (JList rows) \<Rightarrow>
          (case for_each edu_step rows [] of
             Inl e \<Rightarrow> Inl e
           | Inr best \<Rightarrow> Inr (map (\<lambda>(k, (y, v)). (k, v)) best))
      | Some _ \<Rightarrow> Inr [])"

text \<open>\<open>d.setdefault(k, default)\<close>: the value under \<open>k\<close>, and the dict afterwards.\<close>

definition setdefault :: "'k \<Rightarrow> 'v \<Rightarrow> ('k \<times> 'v) list \<Rightarrow> 'v \<times> ('k \<times> 'v) list" where
  "setdefault k dflt d =
     (case map_of d k of
        Some v \<Rightarrow> (v, d)
      | None \<Rightarrow> (dflt, AList.update k dflt d))"

text \<open>
  \<open>by_state_year.setdefault(key, {}).setdefault(year, []).append(rate)\<close>: the inner dict
  and the list are changed in place, which the model writes back under the same keys.
\<close>

definition append_rate ::
  "ustr \<Rightarrow> int \<Rightarrow> pyfloat \<Rightarrow> (ustr \<times> (int \<times> pyfloat list) list) list
     \<Rightarrow> (ustr \<times> (int \<times> pyfloat list) list) list" where
  "append_rate key year rate by_state_year =
     (case setdefault key [] by_state_year of (years_map, d1) \<Rightarrow>
        (case setdefault year [] years_map of (rates, ym1) \<Rightarrow>
           AList.update key (AList.update year (rates @ [rate]) ym1) d1))"

definition unemp_step ::
  "json \<Rightarrow> (ustr \<times> (int \<times> pyfloat list) list) list
     \<Rightarrow> py_exc + (ustr \<times> (int \<times> pyfloat list) list) list" where
  "unemp_step r by_state_year =
     (case r of
        JDict d \<Rightarrow>
          (case py_get d (u ''City'') of
             JStr st \<Rightarrow>
               (case py_get d (u ''Quarter'') of
                  JStr q \<Rightarrow>
                    if length q < 4 \<or> \<not> py_isdigit (take 4 q) then Inr by_state_year
                    else
                      (case int_of_str (take 4 q) of
                         Inl e \<Rightarrow> Inl e
                       | Inr year \<Rightarrow>
                           (case as_float (py_get d (u ''Unemployment_Rate'')) of
                              Inl e \<Rightarrow> Inl e
                            | Inr None \<Rightarrow> Inr by_state_year
                            | Inr (Some rate) \<Rightarrow>
                                Inr (append_rate (py_norm st) year rate by_state_year)))
                | _ \<Rightarrow> Inr by_state_year)
           | _ \<Rightarrow> Inr by_state_year)
      | _ \<Rightarrow> Inr by_state_year)"

text \<open>
  \<open>statistics.mean\<close>: an empty sequence raises. Non-finite data give a non-finite mean.
\<close>

fun the_fin :: "pyfloat \<Rightarrow> real" where
  "the_fin (Fin r) = r"
| "the_fin x = 0"

definition float_mean :: "pyfloat list \<Rightarrow> pyfloat" where
  "float_mean xs =
     (if NaN \<in> set xs \<or> (PosInf \<in> set xs \<and> NegInf \<in> set xs) then NaN
      else if PosInf \<in> set xs then PosInf
      else if NegInf \<in> set xs then NegInf
      else Fin (sum_list (map the_fin xs) / real (length xs)))"

definition mean :: "pyfloat list \<Rightarrow> py_exc + pyfloat" where
  "mean xs =
     (if xs = [] then Inl (StatisticsError ''mean requires at least one data point'')
      else Inr (float_mean xs))"

text \<open>\<open>max(years_map.keys())\<close>: an empty sequence raises.\<close>

definition py_max :: "int list \<Rightarrow> py_exc + int" where
  "py_max ks =
     (case ks of
        [] \<Rightarrow> Inl (ValueError ''max() arg is an empty sequence'')
      | k # ks' \<Rightarrow> Inr (fold max ks' k))"

text \<open>\<open>d[k]\<close>: a missing key raises.\<close>

definition py_index :: "('k \<times> 'v) list \<Rightarrow> 'k \<Rightarrow> py_exc + 'v" where
  "py_index d k = (case map_of d k of None \<Rightarrow> Inl (KeyError ''key'') | Some v \<Rightarrow> Inr v)"

text \<open>The body of the second loop of the unemployment loader.\<close>

definition unemp_out_step ::
  "ustr \<times> (int \<times> pyfloat list) list \<Rightarrow> (ustr \<times> pyfloat) list
     \<Rightarrow> py_exc + (ustr \<times> pyfloat) list" where
  "unemp_out_step item out =
     (case item of (st_key, years_map) \<Rightarrow>
        if (case map_of years_map 2022 of None \<Rightarrow> False | Some rates \<Rightarrow> rates \<noteq> []) then
          (case py_index years_map 2022 of
             Inl e \<Rightarrow> Inl e
           | Inr rates \<Rightarrow>
               (case mean rates of
                  Inl e \<Rightarrow> Inl e
                | Inr m \<Rightarrow> Inr (AList.update st_key m out)))
        else
          (case py_max (map fst years_map) of
             Inl e \<Rightarrow> Inl e
           | Inr latest_year \<Rightarrow>
               (case py_index years_map latest_year of
                  Inl e \<Rightarrow> Inl e
                | Inr rates \<Rightarrow>
                    (case mean rates of
                       Inl e \<Rightarrow> Inl e
                     | Inr m \<Rightarrow> Inr (AList.update st_key m out)))))"

definition load_unemployment_2022_avg_by_state_norm ::
  "files \<Rightarrow> py_exc + (ustr \<times> pyfloat) list" where
  "load_unemployment_2022_avg_by_state_norm fs =
     (case UNEMP_FILE fs of
        None \<Rightarrow> Inr []
      | Some (JList rows) \<Rightarrow>
          (case for_each unemp_step rows [] of
             Inl e \<Rightarrow> Inl e
           | Inr by_state_year \<Rightarrow> for_each unemp_out_step by_state_year [])
      | Some _ \<Rightarrow> Inr [])"

section \<open>The join\<close>

record out_row = bf_row +
  dimension :: ustr
  metric_value :: pyfloat

text \<open>The counters \<open>added\<close> and \<open>missing\<close>, one entry per dimension.\<close>

record counters =
  Sanitation :: nat
  Education :: nat
  Unemployment :: nat

definition zero_counters :: counters where
  "zero_counters = \<lparr>Sanitation = 0, Education = 0, Unemployment = 0\<rparr>"

definition make_row :: "bf_row \<Rightarrow> ustr \<Rightarrow> pyfloat \<Rightarrow> out_row" where
  "make_row b label v =
     \<lparr>State = State b, UF = UF b, bf_total = bf_total b, dimension = label, metric_value = v\<rparr>"

text \<open>The body of the loop over \<open>bf.items()\<close>: three blocks, one per dimension.\<close>

definition join_step ::
  "(ustr \<times> pyfloat) list \<Rightarrow> (ustr \<times> pyfloat) list \<Rightarrow> (ustr \<times> pyfloat) list
     \<Rightarrow> ustr \<times> bf_row \<Rightarrow> out_row list \<times> counters \<times> counters
     \<Rightarrow> out_row list \<times> counters \<times> counters" where
  "join_step sanitation education unemployment item st =
     (case item of (st_key, b) \<Rightarrow>
      case st of (out0, added0, missing0) \<Rightarrow>
      case (case map_of sanitation st_key of
              Some v \<Rightarrow>
                (out0 @ [make_row b (u ''Sanitation access (%)'') v],
                 added0\<lparr>Sanitation := Sanitation added0 + 1\<rparr>, missing0)
            | None \<Rightarrow> (out0, added0, missing0\<lparr>Sanitation := Sanitation missing0 + 1\<rparr>))
      of (out1, added1, missing1) \<Rightarrow>
      case (case map_of education st_key of
              Some v \<Rightarrow>
                (out1 @ [make_row b (u ''Education (years)'') v],
                 added1\<lparr>Education := Education added1 + 1\<rparr>, missing1)
            | None \<Rightarrow> (out1, added1, missing1\<lparr>Education := Education missing1 + 1\<rparr>))
      of (out2, added2, missing2) \<Rightarrow>
      (case map_of unemployment st_key of
         Some v \<Rightarrow>
           (out2 @ [make_row b (u ''Unemployment (%)'') v],
            added2\<lparr>Unemployment := Unemployment added2 + 1\<rparr>, missing2)
       | None \<Rightarrow> (out2, added2, missing2\<lparr>Unemployment := Unemployment missing2 + 1\<rparr>)))"

definition join_rows ::
  "(ustr \<times> bf_row) list \<Rightarrow> (ustr \<times> pyfloat) list \<Rightarrow> (ustr \<times> pyfloat) list
     \<Rightarrow> (ustr \<times> pyfloat) list \<Rightarrow> out_row list \<times> counters \<times> counters" where
  "join_rows bf sanitation education unemployment =
     fold (join_step sanitation education unemployment) bf ([], zero_counters, zero_counters)"

definition build_long_rows :: "files \<Rightarrow> py_exc + out_row list" where
  "build_long_rows fs =
     (case load_bf_totals_by_state_norm fs of
        Inl e \<Rightarrow> Inl e
      | Inr bf \<Rightarrow>
          if bf = [] then Inr []
          else
            (case load_sanitation_2022_by_state_norm fs of
               Inl e \<Rightarrow> Inl e
             | Inr sanitation \<Rightarrow>
                 (case load_education_latest_by_state_norm fs of
                    Inl e \<Rightarrow> Inl e
                  | Inr education \<Rightarrow>
                      (case load_unemployment_2022_avg_by_state_norm fs of
                         Inl e \<Rightarrow> Inl e
                       | Inr unemployment \<Rightarrow>
                           Inr (fst (join_rows bf sanitation education unemployment))))))"

section \<open>Statements of the specification\<close>





text \<open>
  Following the specification's words: the records the join owes one baseline entry, in the
  order sanitation, education, unemployment, and the number of baseline entries whose key a
  metric map has or lacks.
\<close>

definition rows_for ::
  "(ustr \<times> pyfloat) list \<Rightarrow> (ustr \<times> pyfloat) list \<Rightarrow> (ustr \<times> pyfloat) list
     \<Rightarrow> ustr \<times> bf_row \<Rightarrow> out_row list" where
  "rows_for sanitation education unemployment item =
     (case map_of sanitation (fst item) of
        None \<Rightarrow> [] | Some v \<Rightarrow> [make_row (snd item) (u ''Sanitation access (%)'') v])
     @ (case map_of education (fst item) of
        None \<Rightarrow> [] | Some v \<Rightarrow> [make_row (snd item) (u ''Education (years)'') v])
     @ (case map_of unemployment (fst item) of
        None \<Rightarrow> [] | Some v \<Rightarrow> [make_row (snd item) (u ''Unemployment (%)'') v])"

definition n_present :: "(ustr \<times> pyfloat) list \<Rightarrow> (ustr \<times> bf_row) list \<Rightarrow> nat" where
  "n_present m bf = length (filter (\<lambda>item. map_of m (fst item) \<noteq> None) bf)"

definition n_absent :: "(ustr \<times> pyfloat) list \<Rightarrow> (ustr \<times> bf_row) list \<Rightarrow> nat" where
  "n_absent m bf = length (filter (\<lambda>item. map_of m (fst item) = None) bf)"

text \<open>The end-to-end example of the specification, as the four parsed files.\<close>

definition example_files :: files where
  "example_files =
     \<lparr>BF_FILE = Some (JList [JDict [(u ''UF'', JStr (u ''BA'')), (u ''total'', JFloat (Fin 100))]]),
      SAN_FILE = Some (JList [JDict [(u ''State'', JStr (u ''Bahia'')),
                                     (u ''Sanitation_Access'', JFloat (Fin 92.5))]]),
      EDU_FILE = Some (JList []),
      UNEMP_FILE = Some (JList [JDict [(u ''City'', JStr (u ''Bahia'')),
                                       (u ''Quarter'', JStr (u ''2022Q1'')),
                                       (u ''Unemployment_Rate'', JFloat (Fin 8))]])\<rparr>"

text \<open>The first alias, in the order of the list, that is a key of the record.\<close>

definition first_present :: "ustr list \<Rightarrow> (ustr \<times> json) list \<Rightarrow> ustr option" where
  "first_present aliases r = find (\<lambda>k. map_of r k \<noteq> None) aliases"

text \<open>
  Three baseline records: one whose first present alias does not coerce while a later one
  does, one with a two-letter code that is no state's, and one that is kept.
\<close>

definition bf_example_malformed_first :: "(ustr \<times> json) list" where
  "bf_example_malformed_first =
     [(u ''UF'', JStr (u ''BA'')), (u ''total_pago_2021'', JStr (u ''abc'')), (u ''total'', JInt 5)]"

definition bf_example_unknown_code :: "(ustr \<times> json) list" where
  "bf_example_unknown_code = [(u ''UF'', JStr (u ''XX'')), (u ''total'', JInt 5)]"

definition bf_example_kept :: "(ustr \<times> json) list" where
  "bf_example_kept =
     [(u ''uf'', JStr (u '' ba '')), (u ''total'', JInt 7), (u ''total_paid'', JStr (u ''1,5''))]"

text \<open>
  Following the specification's words: an education record counts when it is a mapping with a
  string state name, a year that \<open>int\<close> accepts and a schooling value that \<open>as_float\<close>
  coerces; it then stands for the triple of its key, its year and its value.
\<close>

definition edu_record :: "json \<Rightarrow> (ustr \<times> int \<times> pyfloat) option" where
  "edu_record r =
     (case r of
        JDict d \<Rightarrow>
          (case py_get d (u ''State'') of
             JStr st \<Rightarrow>
               (case py_int (py_get d (u ''Year'')) of
                  Inl e \<Rightarrow> None
                | Inr y \<Rightarrow>
                    (case as_float (py_get d (u ''Years_Schooling'')) of
                       Inr (Some v) \<Rightarrow> Some (py_norm st, y, v)
                     | _ \<Rightarrow> None))
           | _ \<Rightarrow> None)
      | _ \<Rightarrow> None)"

text \<open>The years and values of the records of one key, in the order of the input.\<close>

definition edu_candidates :: "ustr \<Rightarrow> json list \<Rightarrow> (int \<times> pyfloat) list" where
  "edu_candidates k rows = map snd (filter (\<lambda>c. fst c = k) (List.map_filter edu_record rows))"

text \<open>
  The first entry, in the order of the input, whose year no entry exceeds: the record of
  the greatest year, and among several of that year the first one met.
\<close>

definition latest_first :: "(int \<times> 'v) list \<Rightarrow> (int \<times> 'v) option" where
  "latest_first cs = find (\<lambda>c. list_all (\<lambda>d. fst d \<le> fst c) cs) cs"

text \<open>
  The example of the specification, and two records of the same state and the same year.
\<close>

definition edu_row :: "ustr \<Rightarrow> int \<Rightarrow> real \<Rightarrow> json" where
  "edu_row st y v =
     JDict [(u ''State'', JStr st), (u ''Year'', JInt y), (u ''Years_Schooling'', JFloat (Fin v))]"

definition edu_example :: "json list" where
  "edu_example = [edu_row (u ''Bahia'') 2019 7.1, edu_row (u ''Bahia'') 2021 7.9]"

definition edu_tie_example :: "json list" where
  "edu_tie_example = [edu_row (u ''Bahia'') 2021 7.9, edu_row (u ''BAHIA'') 2021 8.3]"

text \<open>What the education loop does with a record that counts.\<close>

definition keep_latest :: "ustr \<times> int \<times> pyfloat \<Rightarrow> (ustr \<times> int \<times> pyfloat) list
    \<Rightarrow> (ustr \<times> int \<times> pyfloat) list" where
  "keep_latest c best =
     (case map_of best (fst c) of
        None \<Rightarrow> AList.update (fst c) (snd c) best
      | Some prev \<Rightarrow> if fst (snd c) > fst prev then AList.update (fst c) (snd c) best else best)"

text \<open>What that step does to the entry of the record's key.\<close>

definition newer :: "int \<times> 'v \<Rightarrow> (int \<times> 'v) option \<Rightarrow> (int \<times> 'v) option" where
  "newer c p = (case p of None \<Rightarrow> Some c | Some prev \<Rightarrow> if fst c > fst prev then Some c else p)"

text \<open>
  The grouping structure of the unemployment loader is well formed when no state has an
  empty dict of years and no year an empty list of rates.
\<close>

definition groups_ok :: "(ustr \<times> (int \<times> pyfloat list) list) list \<Rightarrow> bool" where
  "groups_ok by_state_year \<longleftrightarrow>
     list_all (\<lambda>item. snd item \<noteq> [] \<and> list_all (\<lambda>yl. snd yl \<noteq> []) (snd item)) by_state_year"

text \<open>
  The two examples of the specification, and a row whose quarter starts with a superscript
  two, a digit for \<open>str.isdigit\<close>.
\<close>

definition unemp_row :: "ustr \<Rightarrow> ustr \<Rightarrow> real \<Rightarrow> json" where
  "unemp_row st q v =
     JDict [(u ''City'', JStr st), (u ''Quarter'', JStr q), (u ''Unemployment_Rate'', JFloat (Fin v))]"

definition unemp_example_2022 :: "json list" where
  "unemp_example_2022 = [unemp_row (u ''Bahia'') (u ''2022Q1'') 9.0, unemp_row (u ''Bahia'') (u ''2022Q3'') 11.0]"

definition unemp_example_2021 :: "json list" where
  "unemp_example_2021 = [unemp_row (u ''Bahia'') (u ''2021Q2'') 6.0]"

definition unemp_example_superscript :: "json list" where
  "unemp_example_superscript = [unemp_row (u ''Bahia'') (178 # u ''022Q1'') 9.0]"

text \<open>
  The rates the second loop averages: those of 2022 when the year is a key, else those of
  the greatest year.
\<close>

definition chosen_rates :: "(int \<times> pyfloat list) list \<Rightarrow> pyfloat list" where
  "chosen_rates years_map =
     (case map_of years_map 2022 of
        Some rates \<Rightarrow> rates
      | None \<Rightarrow>
          (case map_of years_map (Max (set (map fst years_map))) of
             Some rates \<Rightarrow> rates
           | None \<Rightarrow> []))"

section \<open>Properties of the numeric coercer\<close>

lemma is_Exception_all [simp]: "is_Exception e"
  by (cases e) simp_all

lemma as_float_catches:
  "as_float x = Inr (case as_float_body x of Inl e \<Rightarrow> None | Inr v \<Rightarrow> v)"
  by (simp add: as_float_def split: sum.splits)



lemmas parse_defs = u_def py_strip_def py_replace_def float_of_str_def without_underscores_def
  to_ascii_cp_def c_strip_def c_isspace_def py_isspace_def take_sign_def parse_inf_nan_def
  parse_decimal_def parse_exponent_def is_ascii_digit_def dec_val_def scale10_def ascii_lower_def

lemma as_float_str:
  "as_float (JStr s) =
     Inr (if py_strip s = [] then None
          else (case float_of_str (py_replace 44 [46] (py_replace 37 [] (py_strip s))) of
                  Inl e \<Rightarrow> None | Inr f \<Rightarrow> Some f))"
  by (simp add: as_float_catches Let_def split: sum.splits)




section \<open>Properties of the static tables\<close>

lemmas norm_defs = py_norm_def py_strip_def py_lower_def py_lower_cp_def nfkd_def nfkd_cp_def
  nfkd_table_def combining_def py_replace_def py_split_def py_isspace_def

lemma u_inj: "u s = u t \<longleftrightarrow> s = t"
  by (simp add: u_def inj_map_eq_map inj_on_def)

lemma norm_names:
  "py_norm (u ''Acre'') = u ''acre''"
  "py_norm (u ''Alagoas'') = u ''alagoas''"
  "py_norm (u ''Amap'' @ [225]) = u ''amapa''"
  "py_norm (u ''Amazonas'') = u ''amazonas''"
  "py_norm (u ''Bahia'') = u ''bahia''"
  "py_norm (u ''Cear'' @ [225]) = u ''ceara''"
  "py_norm (u ''Distrito Federal'') = u ''distrito federal''"
  "py_norm (u ''Esp'' @ 237 # u ''rito Santo'') = u ''espirito santo''"
  "py_norm (u ''Goi'' @ 225 # u ''s'') = u ''goias''"
  "py_norm (u ''Maranh'' @ 227 # u ''o'') = u ''maranhao''"
  "py_norm (u ''Mato Grosso'') = u ''mato grosso''"
  "py_norm (u ''Mato Grosso do Sul'') = u ''mato grosso do sul''"
  "py_norm (u ''Minas Gerais'') = u ''minas gerais''"
  "py_norm (u ''Par'' @ [225]) = u ''para''"
  "py_norm (u ''Para'' @ 237 # u ''ba'') = u ''paraiba''"
  "py_norm (u ''Paran'' @ [225]) = u ''parana''"
  "py_norm (u ''Pernambuco'') = u ''pernambuco''"
  "py_norm (u ''Piau'' @ [237]) = u ''piaui''"
  "py_norm (u ''Rio de Janeiro'') = u ''rio de janeiro''"
  "py_norm (u ''Rio Grande do Norte'') = u ''rio grande do norte''"
  "py_norm (u ''Rio Grande do Sul'') = u ''rio grande do sul''"
  "py_norm (u ''Rond'' @ 244 # u ''nia'') = u ''rondonia''"
  "py_norm (u ''Roraima'') = u ''roraima''"
  "py_norm (u ''Santa Catarina'') = u ''santa catarina''"
  "py_norm (u ''S'' @ 227 # u ''o Paulo'') = u ''sao paulo''"
  "py_norm (u ''Sergipe'') = u ''sergipe''"
  "py_norm (u ''Tocantins'') = u ''tocantins''"
  by (simp_all add: norm_defs u_def)


lemma STATE_TO_UF_eq:
  "STATE_TO_UF =
     [(u ''acre'', u ''AC''), (u ''alagoas'', u ''AL''), (u ''amapa'', u ''AP''),
      (u ''amazonas'', u ''AM''), (u ''bahia'', u ''BA''), (u ''ceara'', u ''CE''),
      (u ''distrito federal'', u ''DF''), (u ''espirito santo'', u ''ES''),
      (u ''goias'', u ''GO''), (u ''maranhao'', u ''MA''), (u ''mato grosso'', u ''MT''),
      (u ''mato grosso do sul'', u ''MS''), (u ''minas gerais'', u ''MG''),
      (u ''para'', u ''PA''), (u ''paraiba'', u ''PB''), (u ''parana'', u ''PR''),
      (u ''pernambuco'', u ''PE''), (u ''piaui'', u ''PI''), (u ''rio de janeiro'', u ''RJ''),
      (u ''rio grande do norte'', u ''RN''), (u ''rio grande do sul'', u ''RS''),
      (u ''rondonia'', u ''RO''), (u ''roraima'', u ''RR''), (u ''santa catarina'', u ''SC''),
      (u ''sao paulo'', u ''SP''), (u ''sergipe'', u ''SE''), (u ''tocantins'', u ''TO'')]"
  by (simp add: STATE_TO_UF_def UF_TO_STATE_def norm_names u_inj)

text \<open>
  C9: the table has 27 entries with pairwise distinct two-letter upper-case codes and
  pairwise distinct display names; the names stay pairwise distinct once normalized, so the
  reverse table has 27 entries too, and looking up the normalized name of each code's entry
  in the reverse table gives the code back.
\<close>

theorem code_table_round_trip:
  "length UF_TO_STATE = 27
   \<and> list_all (\<lambda>kv. length (fst kv) = 2 \<and> list_all (\<lambda>c. 65 \<le> c \<and> c \<le> 90) (fst kv)) UF_TO_STATE
   \<and> distinct (map fst UF_TO_STATE)
   \<and> distinct (map snd UF_TO_STATE)
   \<and> distinct (map (\<lambda>kv. py_norm (snd kv)) UF_TO_STATE)
   \<and> length STATE_TO_UF = 27
   \<and> map (\<lambda>kv. map_of STATE_TO_UF (py_norm (snd kv))) UF_TO_STATE
       = map (\<lambda>kv. Some (fst kv)) UF_TO_STATE"
proof -
  have a: "length UF_TO_STATE = 27"
    by (simp add: UF_TO_STATE_def)
  have b: "list_all (\<lambda>kv. length (fst kv) = 2 \<and> list_all (\<lambda>c. 65 \<le> c \<and> c \<le> 90) (fst kv)) UF_TO_STATE"
    by (simp add: UF_TO_STATE_def u_def)
  have c: "distinct (map fst UF_TO_STATE)"
    by (simp add: UF_TO_STATE_def u_inj)
  have d: "distinct (map snd UF_TO_STATE)"
    by (simp add: UF_TO_STATE_def u_def)
  have e: "distinct (map (\<lambda>kv. py_norm (snd kv)) UF_TO_STATE)"
    by (simp add: UF_TO_STATE_def norm_names u_inj)
  have f: "length STATE_TO_UF = 27"
    by (simp add: STATE_TO_UF_eq)
  have g: "map (\<lambda>kv. map_of STATE_TO_UF (py_norm (snd kv))) UF_TO_STATE
       = map (\<lambda>kv. Some (fst kv)) UF_TO_STATE"
    by (simp add: UF_TO_STATE_def norm_names STATE_TO_UF_eq u_inj)
  show ?thesis
    using a b c d e f g by blast
qed

section \<open>Properties of the key normalizer\<close>























section \<open>Properties of the join\<close>

lemma join_step_eq:
  "join_step san edu un item (out, a, m) =
     (out @ rows_for san edu un item,
      \<lparr>Sanitation = Sanitation a + n_present san [item],
       Education = Education a + n_present edu [item],
       Unemployment = Unemployment a + n_present un [item]\<rparr>,
      \<lparr>Sanitation = Sanitation m + n_absent san [item],
       Education = Education m + n_absent edu [item],
       Unemployment = Unemployment m + n_absent un [item]\<rparr>)"
  by (cases item; cases a; cases m)
    (simp add: join_step_def rows_for_def n_present_def n_absent_def split: option.splits)

lemma n_present_Cons: "n_present x (item # bf) = n_present x [item] + n_present x bf"
  by (simp add: n_present_def)

lemma n_absent_Cons: "n_absent x (item # bf) = n_absent x [item] + n_absent x bf"
  by (simp add: n_absent_def)

lemma join_fold:
  "fold (join_step san edu un) bf (out, a, m) =
     (out @ concat (map (rows_for san edu un) bf),
      \<lparr>Sanitation = Sanitation a + n_present san bf,
       Education = Education a + n_present edu bf,
       Unemployment = Unemployment a + n_present un bf\<rparr>,
      \<lparr>Sanitation = Sanitation m + n_absent san bf,
       Education = Education m + n_absent edu bf,
       Unemployment = Unemployment m + n_absent un bf\<rparr>)"
proof (induction bf arbitrary: out a m)
  case Nil
  show ?case by (simp add: n_present_def n_absent_def)
next
  case (Cons item bf)
  show ?case
    by (simp add: join_step_eq Cons.IH n_present_Cons [of _ item bf] n_absent_Cons [of _ item bf])
qed

lemma ex_bf: "load_bf_totals_by_state_norm example_files =
   Inr [(u ''bahia'', \<lparr>State = u ''Bahia'', UF = u ''BA'', bf_total = Fin 100\<rparr>)]"
  by (simp add: example_files_def load_bf_totals_by_state_norm_def bf_step_def py_get_def
      py_or_def py_strip_def py_isspace_def py_upper_def py_upper_cp_def total_aliases_def
      as_float_catches UF_TO_STATE_def u_def norm_defs)

lemma ex_san: "load_sanitation_2022_by_state_norm example_files = Inr [(u ''bahia'', Fin 92.5)]"
  by (simp add: example_files_def load_sanitation_2022_by_state_norm_def san_step_def py_get_def
      as_float_catches u_def norm_defs)

lemma ex_edu: "load_education_latest_by_state_norm example_files = Inr []"
  by (simp add: example_files_def load_education_latest_by_state_norm_def)

lemma ex_unemp: "load_unemployment_2022_avg_by_state_norm example_files = Inr [(u ''bahia'', Fin 8)]"
  by (simp add: example_files_def load_unemployment_2022_avg_by_state_norm_def unemp_step_def
      py_get_def as_float_catches u_def norm_defs py_isdigit_def py_isdigit_cp_def
      is_ascii_digit_def int_of_str_def to_ascii_cp_def c_strip_def c_isspace_def take_sign_def
      dec_val_def append_rate_def setdefault_def unemp_out_step_def py_index_def mean_def
      float_mean_def)

text \<open>
  C1: for all four mappings, the join walks the baseline items in order and appends, for each,
  the records of the dimensions present in the order sanitation, education, unemployment,
  each with the baseline's fields, the dimension's label and the metric's value; \<open>added\<close>
  counts the entries present and \<open>missing\<close> the entries absent, per dimension. On the
  example of the specification the output is the two records given there, both on the
  mappings and from the four files.
\<close>

theorem join_rows_spec:
  "join_rows bf san edu un =
     (concat (map (rows_for san edu un) bf),
      \<lparr>Sanitation = n_present san bf, Education = n_present edu bf,
       Unemployment = n_present un bf\<rparr>,
      \<lparr>Sanitation = n_absent san bf, Education = n_absent edu bf,
       Unemployment = n_absent un bf\<rparr>)
   \<and> join_rows [(u ''bahia'', \<lparr>State = u ''Bahia'', UF = u ''BA'', bf_total = Fin 100\<rparr>)]
       [(u ''bahia'', Fin 92.5)] [] [(u ''bahia'', Fin 8)] =
     ([\<lparr>State = u ''Bahia'', UF = u ''BA'', bf_total = Fin 100,
        dimension = u ''Sanitation access (%)'', metric_value = Fin 92.5\<rparr>,
       \<lparr>State = u ''Bahia'', UF = u ''BA'', bf_total = Fin 100,
        dimension = u ''Unemployment (%)'', metric_value = Fin 8\<rparr>],
      \<lparr>Sanitation = 1, Education = 0, Unemployment = 1\<rparr>,
      \<lparr>Sanitation = 0, Education = 1, Unemployment = 0\<rparr>)
   \<and> build_long_rows example_files =
     Inr [\<lparr>State = u ''Bahia'', UF = u ''BA'', bf_total = Fin 100,
          dimension = u ''Sanitation access (%)'', metric_value = Fin 92.5\<rparr>,
         \<lparr>State = u ''Bahia'', UF = u ''BA'', bf_total = Fin 100,
          dimension = u ''Unemployment (%)'', metric_value = Fin 8\<rparr>]"
proof -
  have general: "join_rows bf san edu un =
     (concat (map (rows_for san edu un) bf),
      \<lparr>Sanitation = n_present san bf, Education = n_present edu bf,
       Unemployment = n_present un bf\<rparr>,
      \<lparr>Sanitation = n_absent san bf, Education = n_absent edu bf,
       Unemployment = n_absent un bf\<rparr>)"
    by (simp add: join_rows_def join_fold zero_counters_def)
  have maps: "join_rows [(u ''bahia'', \<lparr>State = u ''Bahia'', UF = u ''BA'', bf_total = Fin 100\<rparr>)]
       [(u ''bahia'', Fin 92.5)] [] [(u ''bahia'', Fin 8)] =
     ([\<lparr>State = u ''Bahia'', UF = u ''BA'', bf_total = Fin 100,
        dimension = u ''Sanitation access (%)'', metric_value = Fin 92.5\<rparr>,
       \<lparr>State = u ''Bahia'', UF = u ''BA'', bf_total = Fin 100,
        dimension = u ''Unemployment (%)'', metric_value = Fin 8\<rparr>],
      \<lparr>Sanitation = 1, Education = 0, Unemployment = 1\<rparr>,
      \<lparr>Sanitation = 0, Education = 1, Unemployment = 0\<rparr>)"
    by (simp add: join_rows_def join_step_def make_row_def zero_counters_def)
  have from_files: "build_long_rows example_files =
     Inr [\<lparr>State = u ''Bahia'', UF = u ''BA'', bf_total = Fin 100,
          dimension = u ''Sanitation access (%)'', metric_value = Fin 92.5\<rparr>,
         \<lparr>State = u ''Bahia'', UF = u ''BA'', bf_total = Fin 100,
          dimension = u ''Unemployment (%)'', metric_value = Fin 8\<rparr>]"
    by (simp add: build_long_rows_def ex_bf ex_san ex_edu ex_unemp join_rows_def join_step_def
        make_row_def zero_counters_def)
  show ?thesis
    using general maps from_files by blast
qed

text \<open>
  C8: when the baseline loader returns the empty mapping, as it does when the baseline file
  is absent, \<open>build_long_rows\<close> returns the empty list and raises nothing, whatever the
  three metric files are.
\<close>

theorem empty_baseline_empty_output:
  "(load_bf_totals_by_state_norm fs = Inr [] \<longrightarrow> build_long_rows fs = Inr [])
   \<and> load_bf_totals_by_state_norm (fs\<lparr>BF_FILE := None\<rparr>) = Inr []
   \<and> build_long_rows (fs\<lparr>BF_FILE := None\<rparr>) = Inr []"
  by (simp add: build_long_rows_def load_bf_totals_by_state_norm_def)

theorem empty_baseline_empty_output_witness:
  "load_bf_totals_by_state_norm (example_files\<lparr>BF_FILE := Some (JList [JInt 1])\<rparr>) = Inr []
   \<and> build_long_rows (example_files\<lparr>BF_FILE := Some (JList [JInt 1])\<rparr>) = Inr []"
proof -
  have "load_bf_totals_by_state_norm (example_files\<lparr>BF_FILE := Some (JList [JInt 1])\<rparr>) = Inr []"
    by (simp add: load_bf_totals_by_state_norm_def bf_step_def)
  then show ?thesis
    using empty_baseline_empty_output [of "example_files\<lparr>BF_FILE := Some (JList [JInt 1])\<rparr>"]
    by blast
qed

section \<open>Properties of the baseline loader\<close>

lemma probe_total_first:
  "probe_total aliases r =
     (case first_present aliases r of None \<Rightarrow> Inr None | Some k \<Rightarrow> as_float (py_get r k))"
  by (induction aliases) (simp_all add: first_present_def)

lemma state_names_nonempty: "map_of UF_TO_STATE c = Some state \<Longrightarrow> state \<noteq> []"
proof -
  have "list_all (\<lambda>kv. snd kv \<noteq> []) UF_TO_STATE"
    by (simp add: UF_TO_STATE_def u_def)
  moreover assume "map_of UF_TO_STATE c = Some state"
  then have "(c, state) \<in> set UF_TO_STATE"
    by (rule map_of_SomeD)
  ultimately show ?thesis
    by (auto simp: list_all_iff)
qed

lemma bf_step_wellformed:
  assumes "py_or (py_get d (u ''UF'')) (py_get d (u ''uf'')) = JStr uf0"
    and "length (py_strip uf0) = 2"
  shows "bf_step (JDict d) out =
     (case probe_total total_aliases d of
        Inl e \<Rightarrow> Inl e
      | Inr None \<Rightarrow> Inr out
      | Inr (Some tot) \<Rightarrow>
          (case map_of UF_TO_STATE (py_upper (py_strip uf0)) of
             None \<Rightarrow> Inr out
           | Some state \<Rightarrow>
               Inr (AList.update (py_norm state)
                      \<lparr>State = state, UF = py_upper (py_strip uf0), bf_total = tot\<rparr> out)))"
  using assms
  by (auto simp: bf_step_def state_names_nonempty split: sum.splits option.splits)

text \<open>
  C4, as the code has it: for a record with a well-formed two-character code, the total is
  the coercion of the first alias of the list that is a key of the record, whether or not
  it coerces to a value; the record is skipped exactly when that coercion gives no value
  (no alias present among them) or the upper-cased code is not in the static table;
  otherwise it is stored under the normalized state name with that total.
\<close>

theorem baseline_total_probe:
  assumes "py_or (py_get d (u ''UF'')) (py_get d (u ''uf'')) = JStr uf0"
    and "length (py_strip uf0) = 2"
  shows "probe_total total_aliases d =
           (case first_present total_aliases d of
              None \<Rightarrow> Inr None
            | Some k \<Rightarrow> as_float (py_get d k))
    \<and> (bf_step (JDict d) [] = Inr [] \<longleftrightarrow>
         probe_total total_aliases d = Inr None
         \<or> map_of UF_TO_STATE (py_upper (py_strip uf0)) = None)
    \<and> (case (probe_total total_aliases d, map_of UF_TO_STATE (py_upper (py_strip uf0))) of
         (Inr (Some tot), Some state) \<Rightarrow>
           bf_step (JDict d) out =
             Inr (AList.update (py_norm state)
                    \<lparr>State = state, UF = py_upper (py_strip uf0), bf_total = tot\<rparr> out)
       | _ \<Rightarrow> bf_step (JDict d) out = Inr out)"
proof -
  obtain v where v: "probe_total total_aliases d = Inr v"
    by (metis probe_total_first as_float_catches option.case_eq_if)
  show ?thesis
    by (simp add: bf_step_wellformed [OF assms] probe_total_first [symmetric] v
        split: option.splits)
qed


lemmas bf_eval = bf_step_def py_get_def py_or_def py_strip_def py_isspace_def py_upper_def
  py_upper_cp_def total_aliases_def UF_TO_STATE_def u_def

text \<open>A record that is kept: the alias \<open>total_paid\<close> comes before \<open>total\<close> in the list.\<close>

theorem baseline_total_probe_witness:
  "py_or (py_get bf_example_kept (u ''UF'')) (py_get bf_example_kept (u ''uf'')) = JStr (u '' ba '')
   \<and> length (py_strip (u '' ba '')) = 2
   \<and> first_present total_aliases bf_example_kept = Some (u ''total_paid'')
   \<and> probe_total total_aliases bf_example_kept = Inr (Some (Fin 1.5))
   \<and> bf_step (JDict bf_example_kept) [] =
       Inr [(u ''bahia'', \<lparr>State = u ''Bahia'', UF = u ''BA'', bf_total = Fin 1.5\<rparr>)]"
proof -
  have code: "py_or (py_get bf_example_kept (u ''UF'')) (py_get bf_example_kept (u ''uf''))
      = JStr (u '' ba '')"
    by (simp add: bf_example_kept_def py_get_def py_or_def u_def)
  have len: "length (py_strip (u '' ba '')) = 2"
    by (simp add: py_strip_def py_isspace_def u_def)
  have first: "first_present total_aliases bf_example_kept = Some (u ''total_paid'')"
    by (simp add: first_present_def total_aliases_def bf_example_kept_def u_def)
  have val: "as_float (py_get bf_example_kept (u ''total_paid'')) = Inr (Some (Fin 1.5))"
    by (simp add: bf_example_kept_def py_get_def as_float_str parse_defs)
  have up: "py_upper (py_strip (u '' ba '')) = u ''BA''"
    by (simp add: py_strip_def py_isspace_def py_upper_def py_upper_cp_def u_def)
  have state: "map_of UF_TO_STATE (u ''BA'') = Some (u ''Bahia'')"
    by (simp add: UF_TO_STATE_def u_inj)
  note th = baseline_total_probe [OF code len, of "[]", unfolded up]
  have probe: "probe_total total_aliases bf_example_kept = Inr (Some (Fin 1.5))"
    using th first val by simp
  have "bf_step (JDict bf_example_kept) [] =
      Inr (AList.update (py_norm (u ''Bahia''))
             \<lparr>State = u ''Bahia'', UF = u ''BA'', bf_total = Fin 1.5\<rparr> [])"
    using th by (simp add: probe state)
  then have kept: "bf_step (JDict bf_example_kept) [] =
       Inr [(u ''bahia'', \<lparr>State = u ''Bahia'', UF = u ''BA'', bf_total = Fin 1.5\<rparr>)]"
    by (simp add: norm_names)
  show ?thesis
    using code len first probe kept by blast
qed

text \<open>
  The record is not kept exactly when some alias coerces: a record whose first present alias
  is malformed is skipped although a later alias holds a number, and so is a record whose
  code is well-formed but unknown.
\<close>

theorem baseline_total_probe_counterexample:
  "py_or (py_get bf_example_malformed_first (u ''UF'')) (py_get bf_example_malformed_first (u ''uf''))
     = JStr (u ''BA'')
   \<and> length (py_strip (u ''BA'')) = 2
   \<and> as_float (py_get bf_example_malformed_first (u ''total'')) = Inr (Some (Fin 5))
   \<and> bf_step (JDict bf_example_malformed_first) [] = Inr []
   \<and> py_or (py_get bf_example_unknown_code (u ''UF'')) (py_get bf_example_unknown_code (u ''uf''))
     = JStr (u ''XX'')
   \<and> length (py_strip (u ''XX'')) = 2
   \<and> as_float (py_get bf_example_unknown_code (u ''total'')) = Inr (Some (Fin 5))
   \<and> bf_step (JDict bf_example_unknown_code) [] = Inr []"
proof -
  have a: "py_or (py_get bf_example_malformed_first (u ''UF'')) (py_get bf_example_malformed_first (u ''uf''))
     = JStr (u ''BA'')"
    by (simp add: bf_example_malformed_first_def py_get_def py_or_def u_def)
  have b: "length (py_strip (u ''BA'')) = 2" "length (py_strip (u ''XX'')) = 2"
    by (simp_all add: py_strip_def py_isspace_def u_def)
  have c: "as_float (py_get bf_example_malformed_first (u ''total'')) = Inr (Some (Fin 5))"
    by (simp add: bf_example_malformed_first_def py_get_def as_float_catches u_def)
  have d: "bf_step (JDict bf_example_malformed_first) [] = Inr []"
    by (simp add: bf_example_malformed_first_def bf_eval as_float_str parse_defs)
  have e: "py_or (py_get bf_example_unknown_code (u ''UF'')) (py_get bf_example_unknown_code (u ''uf''))
     = JStr (u ''XX'')"
    by (simp add: bf_example_unknown_code_def py_get_def py_or_def u_def)
  have f: "as_float (py_get bf_example_unknown_code (u ''total'')) = Inr (Some (Fin 5))"
    by (simp add: bf_example_unknown_code_def py_get_def as_float_catches u_def)
  have g: "bf_step (JDict bf_example_unknown_code) [] = Inr []"
    by (simp add: bf_example_unknown_code_def bf_eval as_float_catches)
  show ?thesis
    using a b c d e f g by blast
qed

section \<open>Properties of the education loader\<close>

lemma edu_step_record:
  "edu_step r best = Inr (case edu_record r of None \<Rightarrow> best | Some c \<Rightarrow> keep_latest c best)"
  by (simp add: edu_step_def edu_record_def keep_latest_def as_float_catches
      split: json.splits sum.splits option.splits)

lemma for_each_edu:
  "for_each edu_step rows best = Inr (fold keep_latest (List.map_filter edu_record rows) best)"
  by (induction rows arbitrary: best)
    (simp_all add: edu_step_record List.map_filter_simps split: option.splits)

lemma keep_latest_lookup:
  "map_of (keep_latest c best) k =
     (if fst c = k then newer (snd c) (map_of best k) else map_of best k)"
  by (simp add: keep_latest_def newer_def AList.update_conv' split: option.splits)

lemma fold_keep_latest_lookup:
  "map_of (fold keep_latest cs best) k =
     fold newer (map snd (filter (\<lambda>c. fst c = k) cs)) (map_of best k)"
  by (induction cs arbitrary: best) (simp_all add: keep_latest_lookup)

lemma find_max_exists:
  "cs \<noteq> [] \<Longrightarrow> \<exists>p. latest_first cs = Some p"
proof -
  assume "cs \<noteq> []"
  then have "Max (fst ` set cs) \<in> fst ` set cs"
    by (intro Max_in) auto
  then obtain p where p: "p \<in> set cs" "fst p = Max (fst ` set cs)"
    by auto
  have "list_all (\<lambda>d. fst d \<le> fst p) cs"
    by (simp add: list_all_iff p(2))
  with p(1) have "\<exists>x \<in> set cs. list_all (\<lambda>d. fst d \<le> fst x) cs"
    by blast
  then show ?thesis
    by (cases "latest_first cs") (auto simp: latest_first_def find_None_iff)
qed

lemma latest_first_Some:
  "latest_first cs = Some p \<Longrightarrow> p \<in> set cs \<and> list_all (\<lambda>d. fst d \<le> fst p) cs"
  by (auto simp: latest_first_def find_Some_iff)

lemma fold_newer_snoc: "fold newer (cs @ [c]) p = newer c (fold newer cs p)"
  by simp

lemma find_snoc:
  "find P (xs @ [x]) = (case find P xs of None \<Rightarrow> (if P x then Some x else None) | Some y \<Rightarrow> Some y)"
  by (induction xs) simp_all

lemma latest_first_snoc:
  "latest_first (cs @ [c]) = newer c (latest_first cs)"
proof (cases "cs = []")
  case True
  then show ?thesis by (simp add: latest_first_def newer_def)
next
  case False
  then obtain p where p: "latest_first cs = Some p"
    using find_max_exists by blast
  then have pin: "p \<in> set cs" and pmax: "list_all (\<lambda>d. fst d \<le> fst p) cs"
    using latest_first_Some by blast+
  have lhs: "latest_first (cs @ [c]) =
      (case find (\<lambda>x. list_all (\<lambda>d. fst d \<le> fst x) (cs @ [c])) cs of
         None \<Rightarrow> (if list_all (\<lambda>d. fst d \<le> fst c) (cs @ [c]) then Some c else None)
       | Some y \<Rightarrow> Some y)"
    unfolding latest_first_def by (rule find_snoc)
  show ?thesis
  proof (cases "fst c > fst p")
    case True
    have "\<not> list_all (\<lambda>d. fst d \<le> fst x) (cs @ [c])" if "x \<in> set cs" for x
      using that pmax True by (auto simp: list_all_iff)
    then have "\<not> (\<exists>x. x \<in> set cs \<and> list_all (\<lambda>d. fst d \<le> fst x) (cs @ [c]))"
      by blast
    then have none: "find (\<lambda>x. list_all (\<lambda>d. fst d \<le> fst x) (cs @ [c])) cs = None"
      unfolding find_None_iff .
    have allc: "list_all (\<lambda>d. fst d \<le> fst c) (cs @ [c])"
      using pmax True by (auto simp: list_all_iff)
    have "latest_first (cs @ [c]) = Some c"
      by (simp only: lhs none allc option.case if_True)
    moreover have "newer c (latest_first cs) = Some c"
      by (simp add: p newer_def True)
    ultimately show ?thesis by simp
  next
    case False
    have eq: "list_all (\<lambda>d. fst d \<le> fst x) (cs @ [c]) \<longleftrightarrow> list_all (\<lambda>d. fst d \<le> fst x) cs"
      if "x \<in> set cs" for x
      using that pin False by (auto simp: list_all_iff)
    have "find (\<lambda>x. list_all (\<lambda>d. fst d \<le> fst x) (cs @ [c])) cs
        = find (\<lambda>x. list_all (\<lambda>d. fst d \<le> fst x) cs) cs"
      by (rule find_cong) (simp_all only: eq)
    also have "\<dots> = Some p"
      using p by (simp only: latest_first_def)
    finally have "latest_first (cs @ [c]) = Some p"
      by (simp only: lhs option.case)
    moreover have "newer c (latest_first cs) = Some p"
      by (simp add: p newer_def False)
    ultimately show ?thesis by simp
  qed
qed

lemma fold_newer_latest: "fold newer cs None = latest_first cs"
proof (induction cs rule: rev_induct)
  case Nil
  show ?case by (simp add: latest_first_def)
next
  case (snoc c cs)
  then show ?case by (simp add: latest_first_snoc)
qed


lemma map_of_drop_year:
  "map_of (map (\<lambda>(k, (y, v)). (k, v)) best) k = map_option snd (map_of best k)"
  by (induction best) auto

lemma education_loader_lookup:
  "\<exists>out. load_education_latest_by_state_norm (fs\<lparr>EDU_FILE := Some (JList rows)\<rparr>) = Inr out
     \<and> (\<forall>k. map_of out k = map_option snd (latest_first (edu_candidates k rows)))"
  by (simp add: load_education_latest_by_state_norm_def for_each_edu map_of_drop_year
      fold_keep_latest_lookup fold_newer_latest edu_candidates_def)

lemmas edu_eval = load_education_latest_by_state_norm_def edu_step_def edu_row_def py_get_def
  as_float_catches u_def norm_defs

text \<open>
  C3: for every list of rows the education loader returns a mapping, and under each key it
  holds the schooling value of the first record, in input order, among the counting records
  of that key with the greatest year (no entry when the key has no such record): the greatest
  year wins, and a later record of the same year does not replace the earlier one. In the
  example of the specification Bahia gets 7.9; two records of the same year keep the first.
\<close>

theorem education_latest_year:
  "(\<exists>out. load_education_latest_by_state_norm (fs\<lparr>EDU_FILE := Some (JList rows)\<rparr>) = Inr out
     \<and> (\<forall>k. map_of out k = map_option snd (latest_first (edu_candidates k rows))))
   \<and> load_education_latest_by_state_norm (fs\<lparr>EDU_FILE := Some (JList edu_example)\<rparr>)
       = Inr [(u ''bahia'', Fin 7.9)]
   \<and> load_education_latest_by_state_norm (fs\<lparr>EDU_FILE := Some (JList edu_tie_example)\<rparr>)
       = Inr [(u ''bahia'', Fin 7.9)]"
proof -
  have a: "load_education_latest_by_state_norm (fs\<lparr>EDU_FILE := Some (JList edu_example)\<rparr>)
       = Inr [(u ''bahia'', Fin 7.9)]"
    by (simp add: edu_example_def edu_eval)
  have b: "load_education_latest_by_state_norm (fs\<lparr>EDU_FILE := Some (JList edu_tie_example)\<rparr>)
       = Inr [(u ''bahia'', Fin 7.9)]"
    by (simp add: edu_tie_example_def edu_eval)
  show ?thesis
    using education_loader_lookup [where fs = fs and rows = rows] a b by blast
qed

section \<open>Properties of the unemployment loader\<close>

lemma set_update_subset: "set (AList.update k v d) \<subseteq> insert (k, v) (set d)"
  by (induction d) auto

lemma update_absent: "map_of d k = None \<Longrightarrow> AList.update k v d = d @ [(k, v)]"
  by (induction d) (auto split: if_splits)

lemma update_last_absent:
  "map_of d k = None \<Longrightarrow> AList.update k v (d @ [(k, w)]) = d @ [(k, v)]"
  by (induction d) (auto split: if_splits)

lemma append_rate_eq:
  "append_rate key year rate d =
     (case map_of d key of
        None \<Rightarrow> d @ [(key, [(year, [rate])])]
      | Some ym \<Rightarrow>
          AList.update key
            (case map_of ym year of
               None \<Rightarrow> ym @ [(year, [rate])]
             | Some rates \<Rightarrow> AList.update year (rates @ [rate]) ym) d)"
  by (simp add: append_rate_def setdefault_def update_absent update_last_absent
      split: option.splits)

lemma groups_ok_update:
  "groups_ok d \<Longrightarrow> ym \<noteq> [] \<Longrightarrow> list_all (\<lambda>yl. snd yl \<noteq> []) ym
     \<Longrightarrow> groups_ok (AList.update key ym d)"
proof -
  assume ok: "groups_ok d" and ne: "ym \<noteq> []" and all: "list_all (\<lambda>yl. snd yl \<noteq> []) ym"
  have "snd item \<noteq> [] \<and> list_all (\<lambda>yl. snd yl \<noteq> []) (snd item)"
    if "item \<in> set (AList.update key ym d)" for item
  proof -
    from that set_update_subset [of key ym d] have "item = (key, ym) \<or> item \<in> set d"
      by blast
    then show ?thesis
      using ok ne all by (auto simp: groups_ok_def list_all_iff)
  qed
  then show ?thesis
    by (simp add: groups_ok_def list_all_iff)
qed

lemma groups_ok_append_rate:
  assumes "groups_ok d"
  shows "groups_ok (append_rate key year rate d)"
proof (cases "map_of d key")
  case None
  then show ?thesis
    using assms by (simp add: append_rate_eq groups_ok_def)
next
  case (Some ym)
  then have "(key, ym) \<in> set d"
    by (rule map_of_SomeD)
  then have ym: "list_all (\<lambda>yl. snd yl \<noteq> []) ym"
    using assms by (auto simp: groups_ok_def list_all_iff)
  show ?thesis
  proof (cases "map_of ym year")
    case None
    then show ?thesis
      using assms Some ym by (simp add: append_rate_eq groups_ok_update)
  next
    case (Some rates)
    have "list_all (\<lambda>yl. snd yl \<noteq> []) (AList.update year (rates @ [rate]) ym)"
      using ym set_update_subset [of year "rates @ [rate]" ym] by (auto simp: list_all_iff)
    then show ?thesis
      using assms \<open>map_of d key = Some ym\<close> Some by (simp add: append_rate_eq groups_ok_update)
  qed
qed

lemma unemp_step_ok:
  "unemp_step r d = Inr d' \<Longrightarrow> groups_ok d \<Longrightarrow> groups_ok d'"
  by (auto simp: unemp_step_def groups_ok_append_rate
      split: json.splits if_splits sum.splits option.splits)

lemma for_each_unemp_ok:
  "for_each unemp_step rows d = Inr d' \<Longrightarrow> groups_ok d \<Longrightarrow> groups_ok d'"
proof (induction rows arbitrary: d)
  case Nil
  then show ?case by simp
next
  case (Cons r rows)
  then show ?case
    by (auto split: sum.splits dest: unemp_step_ok)
qed


lemma py_max_Max: "ks \<noteq> [] \<Longrightarrow> py_max ks = Inr (Max (set ks))"
proof (cases ks)
  case Nil
  assume "ks \<noteq> []"
  with Nil show ?thesis by simp
next
  case (Cons k ks')
  have "Max (set (k # ks')) = fold max ks' k"
    by (rule Max.set_eq_fold)
  then show ?thesis
    by (simp only: Cons py_max_def list.case)
qed

lemma unemp_out_step_ok:
  assumes "ym \<noteq> []" "list_all (\<lambda>yl. snd yl \<noteq> []) ym"
  shows "unemp_out_step (k, ym) out = Inr (AList.update k (float_mean (chosen_rates ym)) out)"
proof (cases "map_of ym 2022")
  case (Some rates)
  then have "(2022, rates) \<in> set ym"
    by (rule map_of_SomeD)
  then have "rates \<noteq> []"
    using assms(2) by (auto simp: list_all_iff)
  then show ?thesis
    using Some by (simp add: unemp_out_step_def py_index_def mean_def chosen_rates_def)
next
  case None
  have "Max (set (map fst ym)) \<in> set (map fst ym)"
    using assms(1) by (intro Max_in) auto
  then obtain rates where r: "map_of ym (Max (set (map fst ym))) = Some rates"
    by (metis map_of_eq_None_iff not_Some_eq set_map)
  then have "(Max (set (map fst ym)), rates) \<in> set ym"
    by (rule map_of_SomeD)
  then have "rates \<noteq> []"
    using assms(2) by (auto simp: list_all_iff)
  then show ?thesis
    using None r assms(1)
    by (simp add: unemp_out_step_def py_index_def mean_def chosen_rates_def py_max_Max)
qed

lemma for_each_out_ok:
  "groups_ok d \<Longrightarrow>
     for_each unemp_out_step d out =
       Inr (fold (\<lambda>item. AList.update (fst item) (float_mean (chosen_rates (snd item)))) d out)"
proof (induction d arbitrary: out)
  case Nil
  show ?case by simp
next
  case (Cons item d)
  obtain k ym where item: "item = (k, ym)" by (cases item)
  from Cons.prems have "ym \<noteq> []" "list_all (\<lambda>yl. snd yl \<noteq> []) ym" "groups_ok d"
    by (simp_all add: groups_ok_def item)
  then show ?case
    by (simp add: item unemp_out_step_ok Cons.IH)
qed

lemma int_of_str_error:
  "int_of_str s = Inl e \<Longrightarrow> e = ValueError ''invalid literal for int() with base 10''"
  by (auto simp: int_of_str_def split: prod.splits option.splits if_splits)

lemma unemp_step_error:
  "unemp_step r d = Inl e \<Longrightarrow> e = ValueError ''invalid literal for int() with base 10''"
  by (auto simp: unemp_step_def as_float_catches
      split: json.splits if_splits sum.splits option.splits dest: int_of_str_error)

lemma for_each_unemp_error:
  "for_each unemp_step rows d = Inl e
     \<Longrightarrow> e = ValueError ''invalid literal for int() with base 10''"
proof (induction rows arbitrary: d)
  case Nil
  then show ?case by simp
next
  case (Cons r rows)
  then show ?case
    by (auto split: sum.splits dest: unemp_step_error)
qed

lemma loader_error:
  "load_unemployment_2022_avg_by_state_norm fs = Inl e
     \<Longrightarrow> e = ValueError ''invalid literal for int() with base 10''"
proof -
  assume a: "load_unemployment_2022_avg_by_state_norm fs = Inl e"
  have "groups_ok []" by (simp add: groups_ok_def)
  then have second: "for_each unemp_step rows [] = Inr d \<Longrightarrow> for_each unemp_out_step d [] \<noteq> Inl e"
    for rows d
    using for_each_unemp_ok for_each_out_ok by fastforce
  from a show ?thesis
    by (auto simp: load_unemployment_2022_avg_by_state_norm_def
        split: option.splits json.splits sum.splits
        dest: for_each_unemp_error second)
qed

text \<open>
  C10: whenever the first loop of the unemployment loader ends, every state in the grouping
  structure has at least one year and every year at least one rate, and the second loop
  returns; for every input the loader raises neither the error of a mean of no data, nor
  that of a maximum of no keys, nor a missing key.
\<close>

theorem unemployment_groups_nonempty:
  "(for_each unemp_step rows [] = Inr by_state_year \<longrightarrow>
      groups_ok by_state_year \<and> (\<exists>out. for_each unemp_out_step by_state_year [] = Inr out))
   \<and> load_unemployment_2022_avg_by_state_norm fs \<noteq> Inl (StatisticsError m)
   \<and> load_unemployment_2022_avg_by_state_norm fs
        \<noteq> Inl (ValueError ''max() arg is an empty sequence'')
   \<and> load_unemployment_2022_avg_by_state_norm fs \<noteq> Inl (KeyError m')"
proof -
  have "groups_ok []" by (simp add: groups_ok_def)
  then have "groups_ok by_state_year \<and> (\<exists>out. for_each unemp_out_step by_state_year [] = Inr out)"
    if "for_each unemp_step rows [] = Inr by_state_year"
    using that for_each_unemp_ok for_each_out_ok by blast
  moreover have "load_unemployment_2022_avg_by_state_norm fs \<noteq> Inl (StatisticsError m)"
    "load_unemployment_2022_avg_by_state_norm fs \<noteq> Inl (ValueError ''max() arg is an empty sequence'')"
    "load_unemployment_2022_avg_by_state_norm fs \<noteq> Inl (KeyError m')"
    using loader_error [of fs] by auto
  ultimately show ?thesis by blast
qed

lemmas unemp_eval = unemp_step_def unemp_row_def py_get_def as_float_catches u_def norm_defs
  py_isdigit_def py_isdigit_cp_def is_ascii_digit_def int_of_str_def to_ascii_cp_def c_strip_def
  c_isspace_def take_sign_def dec_val_def append_rate_def setdefault_def

theorem unemployment_groups_nonempty_witness:
  "for_each unemp_step unemp_example_2022 [] = Inr [(u ''bahia'', [(2022, [Fin 9, Fin 11])])]
   \<and> groups_ok [(u ''bahia'', [(2022, [Fin 9, Fin 11])])]
   \<and> (\<exists>out. for_each unemp_out_step [(u ''bahia'', [(2022, [Fin 9, Fin 11])])] [] = Inr out)"
proof -
  have "for_each unemp_step unemp_example_2022 [] = Inr [(u ''bahia'', [(2022, [Fin 9, Fin 11])])]"
    by (simp add: unemp_example_2022_def unemp_eval)
  then show ?thesis
    using unemployment_groups_nonempty
      [of unemp_example_2022 "[(u ''bahia'', [(2022, [Fin 9, Fin 11])])]"]
    by blast
qed

end
